theory Spec2Isabelle
  imports Main
begin

section \<open>JavaScript values\<close>

text \<open>
  The provider of \<^verbatim>\<open>src/components/provider.tsx\<close> works on plain JavaScript data:
  configuration objects, nested format presets, callbacks. A value is a primitive, an
  object or a function. Objects and functions carry an identity (a natural number), since
  \<^verbatim>\<open>===\<close> compares them by reference; the code never writes to an object that it did
  not create itself, so an object also carries its own enumerable properties, as the
  entries of an object literal in the order written.

  Outside the model: prototypes and accessors (only own properties are read), symbols,
  arrays, floating point numbers (numbers are integers, so there is no NaN), own
  properties of functions, and the numeric ordering of integer-like keys.
\<close>

datatype jsval =
    Undefined
  | Null
  | Bool bool
  | Num int
  | Str string
  | Obj nat "(string \<times> jsval) list"
  | Fun nat
  | Bound nat string "jsval list"

type_synonym props = "(string \<times> jsval) list"

text \<open>Property assignment \<^verbatim>\<open>o[k] = v\<close>: an existing key keeps its place, a new key goes last.\<close>

fun assign :: "string \<Rightarrow> jsval \<Rightarrow> props \<Rightarrow> props" where
  "assign k v [] = [(k, v)]"
| "assign k v ((k', v') # ps) = (if k = k' then (k, v) # ps else (k', v') # assign k v ps)"

text \<open>
  Evaluating an object literal \<^verbatim>\<open>{k1: v1, ...spread, k2: v2}\<close>: the entries are assigned
  from left to right to an empty object, so a key written twice keeps its first position
  and its last value.
\<close>

definition literal :: "props \<Rightarrow> props" where
  "literal es = fold (\<lambda>(k, v). assign k v) es []"

definition object_literal :: "nat \<Rightarrow> props \<Rightarrow> jsval" where
  "object_literal i es = Obj i (literal es)"

text \<open>Decimal numerals, for the index keys of a string and for template literals.\<close>

fun dec :: "nat \<Rightarrow> string" where
  "dec n = (if n < 10 then [char_of (48 + n)] else dec (n div 10) @ [char_of (48 + n mod 10)])"

declare dec.simps [simp del]

text \<open>
  The own enumerable properties of a value, as \<^verbatim>\<open>Object.keys\<close> and the spread
  \<^verbatim>\<open>...v\<close> see them: those of an object; the characters of a string under their
  indices; none for the other primitives and (in this model) for functions. The entries
  that a value carries are read as an object literal would be, so every list of entries
  stands for an object, with each key once.
\<close>

fun entries :: "jsval \<Rightarrow> props" where
  "entries (Obj i ps) = ps"
| "entries (Str s) = map (\<lambda>i. (dec i, Str [s ! i])) [0..<length s]"
| "entries _ = []"

definition own_props :: "jsval \<Rightarrow> props" where
  "own_props v = literal (entries v)"

definition keys :: "jsval \<Rightarrow> string list" where
  "keys v = map fst (own_props v)"

text \<open>Reading a property, \<^verbatim>\<open>v.k\<close> or \<^verbatim>\<open>v[k]\<close>: \<^verbatim>\<open>undefined\<close> when there is none.\<close>

definition lookup :: "props \<Rightarrow> string \<Rightarrow> jsval" where
  "lookup ps k = (case map_of ps k of Some v \<Rightarrow> v | None \<Rightarrow> Undefined)"

definition get :: "jsval \<Rightarrow> string \<Rightarrow> jsval" where
  "get v k = lookup (own_props v) k"

text \<open>Truthiness, as tested by \<^verbatim>\<open>if (v)\<close>, \<^verbatim>\<open>!v\<close> and \<^verbatim>\<open>v || w\<close>.\<close>

fun truthy :: "jsval \<Rightarrow> bool" where
  "truthy Undefined = False"
| "truthy Null = False"
| "truthy (Bool b) = b"
| "truthy (Num n) = (n \<noteq> 0)"
| "truthy (Str s) = (s \<noteq> [])"
| "truthy _ = True"

text \<open>\<^verbatim>\<open>a || b\<close>\<close>

definition js_or :: "jsval \<Rightarrow> jsval \<Rightarrow> jsval" where
  "js_or a b = (if truthy a then a else b)"

text \<open>\<^verbatim>\<open>typeof v === 'function'\<close>\<close>

fun is_function :: "jsval \<Rightarrow> bool" where
  "is_function (Fun i) = True"
| "is_function (Bound i f args) = True"
| "is_function _ = False"

text \<open>Strict equality \<^verbatim>\<open>===\<close>: primitives by value, objects and functions by identity.\<close>

fun strict_eq :: "jsval \<Rightarrow> jsval \<Rightarrow> bool" where
  "strict_eq Undefined Undefined = True"
| "strict_eq Null Null = True"
| "strict_eq (Bool a) (Bool b) = (a = b)"
| "strict_eq (Num a) (Num b) = (a = b)"
| "strict_eq (Str a) (Str b) = (a = b)"
| "strict_eq (Obj i ps) (Obj j qs) = (i = j)"
| "strict_eq (Fun i) (Fun j) = (i = j)"
| "strict_eq (Bound i f xs) (Bound j g ys) = (i = j)"
| "strict_eq _ _ = False"

text \<open>
  Deep value equality forgets the identities of objects: two values are deeply equal when
  they agree after the identity of every object in them has been erased. Functions have
  nothing but their identity and keep it.
\<close>

primrec erase :: "jsval \<Rightarrow> jsval" where
  "erase Undefined = Undefined"
| "erase Null = Null"
| "erase (Bool b) = Bool b"
| "erase (Num n) = Num n"
| "erase (Str s) = Str s"
| "erase (Obj i ps) = Obj 0 (map (map_prod id erase) ps)"
| "erase (Fun i) = Fun i"
| "erase (Bound i f xs) = Bound i f xs"

section \<open>The normalizer: processIntlConfig\<close>

text \<open>
  \<^verbatim>\<open>setTimeZoneInOptions(opts, timeZone)\<close> (lines 55-69) reduces over
  \<^verbatim>\<open>Object.keys(opts)\<close> from a new empty object \<^verbatim>\<open>all\<close>, storing under each key the
  new object \<^verbatim>\<open>{timeZone, ...opts[k]}\<close>. The natural number is the next unused
  identity; every object created takes one.
\<close>

definition setTimeZoneInOptions :: "jsval \<Rightarrow> jsval \<Rightarrow> nat \<Rightarrow> jsval \<times> nat" where
  "setTimeZoneInOptions opts timeZone n =
     (let (all, m) =
            fold (\<lambda>k (all, m).
                    (assign k (object_literal m ((''timeZone'', timeZone) # own_props (get opts k))) all,
                     Suc m))
                 (keys opts) ([], Suc n)
      in (Obj n all, m))"

text \<open>
  Lines 76-90 and 91-105 are the same block, once on \<^verbatim>\<open>formats\<close> and once on
  \<^verbatim>\<open>defaultFormats\<close>: \<^verbatim>\<open>date\<close> and \<^verbatim>\<open>time\<close> are read first, then each one that is
  truthy is replaced in a new copy \<^verbatim>\<open>{...formats, date: ...}\<close> of the object.
\<close>

definition setTimeZoneInFormats :: "jsval \<Rightarrow> jsval \<Rightarrow> nat \<Rightarrow> jsval \<times> nat" where
  "setTimeZoneInFormats formats timeZone n =
     (let dateFormats = get formats ''date'';
          timeFormats = get formats ''time'';
          (formats1, n1) =
             (if truthy dateFormats
              then (let (d, m) = setTimeZoneInOptions dateFormats timeZone (Suc n)
                    in (object_literal n (own_props formats @ [(''date'', d)]), m))
              else (formats, n));
          (formats2, n2) =
             (if truthy timeFormats
              then (let (t, m) = setTimeZoneInOptions timeFormats timeZone (Suc n1)
                    in (object_literal n1 (own_props formats1 @ [(''time'', t)]), m))
              else (formats1, n1))
      in (formats2, n2))"

text \<open>\<^verbatim>\<open>processIntlConfig(config)\<close> (lines 71-117).\<close>

definition processIntlConfig :: "jsval \<Rightarrow> nat \<Rightarrow> jsval \<times> nat" where
  "processIntlConfig config n =
     (let formats = get config ''formats'';
          defaultFormats = get config ''defaultFormats'';
          timeZone = get config ''timeZone'';
          (formats', n1) =
             (if truthy timeZone \<and> truthy formats
              then setTimeZoneInFormats formats timeZone n else (formats, n));
          (defaultFormats', n2) =
             (if truthy timeZone \<and> truthy defaultFormats
              then setTimeZoneInFormats defaultFormats timeZone n1 else (defaultFormats, n1))
      in (object_literal n2
            [(''locale'', get config ''locale''),
             (''timeZone'', timeZone),
             (''formats'', formats'),
             (''textComponent'', get config ''textComponent''),
             (''messages'', get config ''messages''),
             (''defaultLocale'', get config ''defaultLocale''),
             (''defaultFormats'', defaultFormats'),
             (''onError'', get config ''onError'')],
          Suc n2))"

section \<open>What the provider imports\<close>

text \<open>
  \<^verbatim>\<open>DEFAULT_INTL_CONFIG\<close>, \<^verbatim>\<open>createError\<close>, \<^verbatim>\<open>createFormatters\<close> and
  \<^verbatim>\<open>createIntlCache\<close> come from \<^verbatim>\<open>../utils\<close> and \<^verbatim>\<open>areIntlLocalesSupported\<close> from the
  package \<^verbatim>\<open>intl-locales-supported\<close>; none of them is among the sources, so they are
  parameters. A function that may create objects takes the next unused identity and
  returns the one after its last. \<^verbatim>\<open>hostToString\<close> is the string that a template
  literal obtains from an object or a function (through its \<^verbatim>\<open>toString\<close> method).
\<close>

record env =
  DEFAULT_INTL_CONFIG :: jsval
  createError :: "string \<Rightarrow> nat \<Rightarrow> jsval \<times> nat"
  createFormatters :: "jsval \<Rightarrow> nat \<Rightarrow> jsval \<times> nat"
  createIntlCache :: "nat \<Rightarrow> jsval \<times> nat"
  areIntlLocalesSupported :: "jsval \<Rightarrow> bool"
  hostToString :: "jsval \<Rightarrow> string"

text \<open>The string that a template literal \<^verbatim>\<open>`${v}`\<close> inserts for a value.\<close>

fun to_string :: "env \<Rightarrow> jsval \<Rightarrow> string" where
  "to_string e Undefined = ''undefined''"
| "to_string e Null = ''null''"
| "to_string e (Bool b) = (if b then ''true'' else ''false'')"
| "to_string e (Num n) = (if n < 0 then ''-'' @ dec (nat (- n)) else dec (nat n))"
| "to_string e (Str s) = s"
| "to_string e v = hostToString e v"

text \<open>
  Modelled from the spec: \<^verbatim>\<open>shallowEquals\<close> is the export of the package
  \<^verbatim>\<open>shallow-equal/objects\<close>, which is not among the sources. By section 4.5 of the
  spec it is a shallow, per-field comparison with reference equality for nested objects
  and functions: the same object is equal to itself; otherwise both must be truthy, have
  the same number of own keys, and every own key of the first must be an own key of the
  second with a strictly equal value.
\<close>

definition shallowEquals :: "jsval \<Rightarrow> jsval \<Rightarrow> bool" where
  "shallowEquals a b =
     (strict_eq a b \<or>
      (truthy a \<and> truthy b \<and> length (keys a) = length (keys b) \<and>
       list_all (\<lambda>k. strict_eq (get a k) (get b k) \<and> k \<in> set (keys b)) (keys a)))"

section \<open>The context builder: createIntl\<close>

text \<open>
  The world outside the values: the next unused identity, and the calls made to
  caller-supplied callbacks so far (callee and arguments, oldest first). A callback is
  taken to return, as section 6 of the spec says of the error sink.
\<close>

record world =
  next_id :: nat
  calls :: "(jsval \<times> jsval list) list"

text \<open>Line 162, \<^verbatim>\<open>{...DEFAULT_INTL_CONFIG, ...config}\<close>: the properties of \<^verbatim>\<open>resolvedConfig\<close>.\<close>

definition resolveConfig :: "env \<Rightarrow> jsval \<Rightarrow> props" where
  "resolveConfig e config = literal (own_props (DEFAULT_INTL_CONFIG e) @ own_props config)"

text \<open>Lines 163-166, the test that the locale is missing or has no locale data.\<close>

definition localeMissing :: "env \<Rightarrow> props \<Rightarrow> bool" where
  "localeMissing e resolvedConfig =
     (\<not> truthy (lookup resolvedConfig ''locale'') \<or>
      \<not> areIntlLocalesSupported e (lookup resolvedConfig ''locale''))"

text \<open>Lines 171-172, the message handed to \<^verbatim>\<open>createError\<close>.\<close>

definition missingLocaleMessage :: "env \<Rightarrow> jsval \<Rightarrow> jsval \<Rightarrow> string" where
  "missingLocaleMessage e locale defaultLocale =
     ''Missing locale data for locale: '' @ [CHR 0x22] @ to_string e locale @ [CHR 0x22] @ ''. '' @
     ''Using default locale: '' @ [CHR 0x22] @ to_string e defaultLocale @ [CHR 0x22] @ '' as fallback.''"

text \<open>
  Lines 184-229, the entries of the returned object literal: the resolved configuration,
  the formatters, and the ten imported format functions bound to the resolved
  configuration and to a formatter getter. A bound function has an identity of its own
  (they are numbered from \<open>n\<close>) and keeps the name of its target and the arguments of
  \<^verbatim>\<open>bind\<close>.
\<close>

definition intlShape :: "jsval \<Rightarrow> jsval \<Rightarrow> nat \<Rightarrow> props" where
  "intlShape resolvedConfig formatters n =
     own_props resolvedConfig @
     [(''formatters'', formatters),
      (''formatNumber'',
         Bound n ''formatNumber'' [Null, resolvedConfig, get formatters ''getNumberFormat'']),
      (''formatNumberToParts'',
         Bound (n + 1) ''formatNumberToParts'' [Null, resolvedConfig, get formatters ''getNumberFormat'']),
      (''formatRelativeTime'',
         Bound (n + 2) ''formatRelativeTime'' [Null, resolvedConfig, get formatters ''getRelativeTimeFormat'']),
      (''formatDate'',
         Bound (n + 3) ''formatDate'' [Null, resolvedConfig, get formatters ''getDateTimeFormat'']),
      (''formatDateToParts'',
         Bound (n + 4) ''formatDateToParts'' [Null, resolvedConfig, get formatters ''getDateTimeFormat'']),
      (''formatTime'',
         Bound (n + 5) ''formatTime'' [Null, resolvedConfig, get formatters ''getDateTimeFormat'']),
      (''formatTimeToParts'',
         Bound (n + 6) ''formatTimeToParts'' [Null, resolvedConfig, get formatters ''getDateTimeFormat'']),
      (''formatPlural'',
         Bound (n + 7) ''formatPlural'' [Null, resolvedConfig, get formatters ''getPluralRules'']),
      (''formatMessage'', Bound (n + 8) ''formatMessage'' [Null, resolvedConfig, formatters]),
      (''formatHTMLMessage'', Bound (n + 9) ''formatHTMLMessage'' [Null, resolvedConfig, formatters])]"

text \<open>
  \<^verbatim>\<open>createIntl(config, cache)\<close> (lines 157-230). \<^verbatim>\<open>resolvedConfig\<close> is a new object, of
  identity \<^verbatim>\<open>rid\<close>, whose \<^verbatim>\<open>locale\<close> is overwritten on fallback before anything else
  reads it.
\<close>

definition createIntl :: "env \<Rightarrow> jsval \<Rightarrow> jsval \<Rightarrow> world \<Rightarrow> jsval \<times> world" where
  "createIntl e config cache w =
     (let (formatters, rid) = createFormatters e cache (next_id w);
          resolvedConfig = resolveConfig e config;
          locale = lookup resolvedConfig ''locale'';
          defaultLocale = lookup resolvedConfig ''defaultLocale'';
          onError = lookup resolvedConfig ''onError'';
          (reported, n) =
             (if localeMissing e resolvedConfig \<and> is_function onError
              then (let (err, m) = createError e (missingLocaleMessage e locale defaultLocale) (Suc rid)
                    in ([(onError, [err])], m))
              else ([], Suc rid));
          resolvedConfig' =
             (if localeMissing e resolvedConfig
              then assign ''locale'' (js_or defaultLocale (Str ''en'')) resolvedConfig
              else resolvedConfig)
      in (object_literal n (intlShape (Obj rid resolvedConfig') formatters (Suc n)),
          \<lparr>next_id = n + 11, calls = calls w @ reported\<rparr>))"

section \<open>The provider and its lifecycle guard\<close>

record state =
  cache :: jsval
  intl :: jsval
  prevConfig :: jsval

text \<open>
  Mounting (lines 125-130): the cache is created, then the initial state, whose
  \<^verbatim>\<open>intl\<close> and \<^verbatim>\<open>prevConfig\<close> each normalize the props anew.
\<close>

definition IntlProvider :: "env \<Rightarrow> jsval \<Rightarrow> world \<Rightarrow> state \<times> world" where
  "IntlProvider e props w =
     (let (c, n1) = createIntlCache e (next_id w);
          (config1, n2) = processIntlConfig props n1;
          (i, w1) = createIntl e config1 c (w\<lparr>next_id := n2\<rparr>);
          (config2, n3) = processIntlConfig props (next_id w1)
      in (\<lparr>cache = c, intl = i, prevConfig = config2\<rparr>, w1\<lparr>next_id := n3\<rparr>))"

text \<open>
  \<^verbatim>\<open>getDerivedStateFromProps(props, state)\<close> (lines 132-144) returns the fields of the
  state to replace, \<^verbatim>\<open>intl\<close> and \<^verbatim>\<open>prevConfig\<close>, or \<^verbatim>\<open>null\<close>.
\<close>

definition getDerivedStateFromProps ::
    "env \<Rightarrow> jsval \<Rightarrow> state \<Rightarrow> world \<Rightarrow> (jsval \<times> jsval) option \<times> world" where
  "getDerivedStateFromProps e props s w =
     (let (config, n) = processIntlConfig props (next_id w)
      in if \<not> shallowEquals (prevConfig s) config
         then (let (i, w1) = createIntl e config (cache s) (w\<lparr>next_id := n\<rparr>)
               in (Some (i, config), w1))
         else (None, w\<lparr>next_id := n\<rparr>))"

text \<open>
  The host (React) merges the returned fields into the state, and keeps the state as it
  is on \<^verbatim>\<open>null\<close>. One configuration event is the guard followed by this merge; a
  session is a sequence of events after mounting.
\<close>

definition mergeState :: "state \<Rightarrow> (jsval \<times> jsval) option \<Rightarrow> state" where
  "mergeState s r = (case r of None \<Rightarrow> s | Some (i, c) \<Rightarrow> s\<lparr>intl := i, prevConfig := c\<rparr>)"

definition receiveProps :: "env \<Rightarrow> jsval \<Rightarrow> state \<times> world \<Rightarrow> state \<times> world" where
  "receiveProps e props sw =
     (let (r, w1) = getDerivedStateFromProps e props (fst sw) (snd sw)
      in (mergeState (fst sw) r, w1))"

definition session :: "env \<Rightarrow> jsval list \<Rightarrow> state \<times> world \<Rightarrow> state \<times> world" where
  "session e events sw = fold (receiveProps e) events sw"

section \<open>Auxiliary notions and sample inputs\<close>

text \<open>The eight properties of the object returned at lines 107-116, in the order written.\<close>

definition canonical_keys :: "string list" where
  "canonical_keys = [''locale'', ''timeZone'', ''formats'', ''textComponent'', ''messages'',
                     ''defaultLocale'', ''defaultFormats'', ''onError'']"

text \<open>
  The value that \<^verbatim>\<open>processIntlConfig\<close> returns under \<^verbatim>\<open>formats\<close> (and, from the
  identity where that one stopped, under \<^verbatim>\<open>defaultFormats\<close>); see
  \<open>processIntlConfig_props\<close> below.
\<close>

definition canonicalFormats :: "jsval \<Rightarrow> string \<Rightarrow> nat \<Rightarrow> jsval \<times> nat" where
  "canonicalFormats config f n =
     (if truthy (get config ''timeZone'') \<and> truthy (get config f)
      then setTimeZoneInFormats (get config f) (get config ''timeZone'') n
      else (get config f, n))"

text \<open>
  The properties of the object that \<^verbatim>\<open>setTimeZoneInFormats\<close> returns when it creates one
  (\<open>m1\<close> and \<open>m2\<close> are the identities at which the two preset maps are built); see
  \<open>setTimeZoneInFormats_changed\<close> below.
\<close>

definition tzFormatsProps :: "jsval \<Rightarrow> jsval \<Rightarrow> nat \<Rightarrow> nat \<Rightarrow> props" where
  "tzFormatsProps formats tz m1 m2 =
     (let ps = (if truthy (get formats ''date'')
                then assign ''date'' (fst (setTimeZoneInOptions (get formats ''date'') tz m1))
                       (own_props formats)
                else own_props formats)
      in if truthy (get formats ''time'')
         then assign ''time'' (fst (setTimeZoneInOptions (get formats ''time'') tz m2)) ps
         else ps)"

text \<open>The properties that \<^verbatim>\<open>createIntl\<close> adds to the resolved configuration (lines 186-228).\<close>

definition bundle_keys :: "string list" where
  "bundle_keys = [''formatters'', ''formatNumber'', ''formatNumberToParts'', ''formatRelativeTime'',
                  ''formatDate'', ''formatDateToParts'', ''formatTime'', ''formatTimeToParts'',
                  ''formatPlural'', ''formatMessage'', ''formatHTMLMessage'']"

text \<open>The properties of \<^verbatim>\<open>resolvedConfig\<close> when \<^verbatim>\<open>createIntl\<close> returns; see \<open>createIntl_shape\<close>.\<close>

definition resolvedFinal :: "env \<Rightarrow> jsval \<Rightarrow> props" where
  "resolvedFinal e config =
     (if localeMissing e (resolveConfig e config)
      then assign ''locale'' (js_or (lookup (resolveConfig e config) ''defaultLocale'') (Str ''en''))
             (resolveConfig e config)
      else resolveConfig e config)"

text \<open>
  A sample environment: defaults for seven fields with \<^verbatim>\<open>defaultLocale\<close> \<^verbatim>\<open>"en"\<close>, locale
  data for \<^verbatim>\<open>en\<close> and \<^verbatim>\<open>de\<close>, errors as strings, and a world whose identities start
  above those of the sample inputs.
\<close>

definition sample_env :: env where
  "sample_env =
     \<lparr>DEFAULT_INTL_CONFIG =
        Obj 0 [(''formats'', Obj 1 []), (''messages'', Obj 2 []), (''timeZone'', Undefined),
               (''textComponent'', Fun 3), (''defaultLocale'', Str ''en''),
               (''defaultFormats'', Obj 4 []), (''onError'', Fun 5)],
      createError = (\<lambda>msg n. (Str (''[React Intl] '' @ msg), n)),
      createFormatters = (\<lambda>c n. (Obj n [(''cache'', c)], Suc n)),
      createIntlCache = (\<lambda>n. (Obj n [], Suc n)),
      areIntlLocalesSupported = (\<lambda>v. v = Str ''en'' \<or> v = Str ''de''),
      hostToString = (\<lambda>v. ''[object Object]'')\<rparr>"

definition sample_world :: world where
  "sample_world = \<lparr>next_id = 100, calls = []\<rparr>"

text \<open>Sample configurations for \<^verbatim>\<open>createIntl\<close>.\<close>

definition cfg_unsupported :: jsval where
  "cfg_unsupported =
     Obj 10 [(''locale'', Str ''xx-ZZ''), (''defaultLocale'', Str ''de''), (''onError'', Fun 7),
             (''messages'', Obj 8 [(''greeting'', Str ''Hello'')])]"

definition cfg_empty_default :: jsval where
  "cfg_empty_default =
     Obj 10 [(''locale'', Str ''xx-ZZ''), (''defaultLocale'', Str []), (''onError'', Fun 7)]"

definition cfg_no_callback :: jsval where
  "cfg_no_callback =
     Obj 10 [(''locale'', Str ''xx-ZZ''), (''defaultLocale'', Str ''de''), (''onError'', Undefined)]"

text \<open>Sample raw configurations for \<^verbatim>\<open>processIntlConfig\<close>.\<close>

definition cfg_presets :: jsval where
  "cfg_presets =
     Obj 10 [(''locale'', Str ''en''), (''timeZone'', Str ''UTC''),
             (''formats'',
                Obj 11 [(''date'',
                   Obj 12 [(''short'', Obj 13 [(''timeZone'', Str ''America/New_York''),
                                               (''month'', Str ''short'')]),
                           (''long'', Obj 14 [(''month'', Str ''long'')])])])]"

definition cfg_empty_timeZone :: jsval where
  "cfg_empty_timeZone =
     Obj 10 [(''locale'', Str ''en''), (''timeZone'', Str []),
             (''formats'', Obj 11 [(''date'', Obj 12 [(''short'', Obj 13 [(''month'', Str ''short'')])])])]"

text \<open>
  Two raw configurations that agree on the eight canonical fields and differ in a ninth
  property, \<^verbatim>\<open>children\<close>.
\<close>

definition cfg_children_a :: jsval where
  "cfg_children_a = Obj 20 (entries cfg_presets @ [(''children'', Str ''a'')])"

definition cfg_children_b :: jsval where
  "cfg_children_b = Obj 21 (entries cfg_presets @ [(''children'', Str ''b'')])"


text \<open>The same without a \<^verbatim>\<open>timeZone\<close>.\<close>

definition cfg_plain_a :: jsval where
  "cfg_plain_a =
     Obj 30 [(''locale'', Str ''en''), (''messages'', Obj 8 [(''greeting'', Str ''Hello'')]),
             (''children'', Str ''a'')]"

definition cfg_plain_b :: jsval where
  "cfg_plain_b =
     Obj 31 [(''locale'', Str ''en''), (''messages'', Obj 8 [(''greeting'', Str ''Hello'')]),
             (''children'', Str ''b'')]"

section \<open>Property lists\<close>

lemma map_of_assign: "map_of (assign k v ps) = (map_of ps)(k \<mapsto> v)"
  by (induction ps) (auto simp: fun_eq_iff)

lemma keys_assign: "fst ` set (assign k v ps) = insert k (fst ` set ps)"
  by (induction ps) (force+)

lemma distinct_assign: "distinct (map fst ps) \<Longrightarrow> distinct (map fst (assign k v ps))"
  by (induction ps) (auto simp: keys_assign)

lemma assign_new: "k \<notin> fst ` set ps \<Longrightarrow> assign k v ps = ps @ [(k, v)]"
  by (induction ps) auto

lemma fold_assign_distinct:
  "distinct (map fst acc) \<Longrightarrow> distinct (map fst (fold (\<lambda>(k, v). assign k v) es acc))"
  by (induction es arbitrary: acc) (auto simp: distinct_assign)

lemma fold_assign_append:
  "distinct (map fst (acc @ es)) \<Longrightarrow> fold (\<lambda>(k, v). assign k v) es acc = acc @ es"
proof (induction es arbitrary: acc)
  case Nil
  then show ?case by simp
next
  case (Cons x es)
  obtain k v where x: "x = (k, v)" by (cases x)
  from Cons.prems have new: "k \<notin> fst ` set acc" by (auto simp: x)
  from Cons.prems have "distinct (map fst ((acc @ [(k, v)]) @ es))" by (auto simp: x)
  from Cons.IH [OF this] show ?case by (simp add: x assign_new [OF new])
qed

lemma map_of_fold_assign:
  "map_of (fold (\<lambda>(k, v). assign k v) es acc) = map_of acc ++ map_of (rev es)"
  by (induction es arbitrary: acc)
     (auto simp: map_of_assign fun_eq_iff map_add_def split: option.splits)

lemma distinct_literal: "distinct (map fst (literal es))"
  by (simp add: literal_def fold_assign_distinct)

lemma literal_distinct_id: "distinct (map fst ps) \<Longrightarrow> literal ps = ps"
  using fold_assign_append [of "[]" ps] by (simp add: literal_def)

lemma literal_literal: "literal (literal es) = literal es"
  by (simp add: literal_distinct_id distinct_literal)

lemma map_of_literal: "map_of (literal es) = map_of (rev es)"
  by (simp add: literal_def map_of_fold_assign)

lemma keys_literal: "fst ` set (literal es) = fst ` set es"
proof -
  have "dom (map_of (literal es)) = dom (map_of (rev es))" by (simp add: map_of_literal)
  then show ?thesis by (simp add: dom_map_of_conv_image_fst)
qed

lemma distinct_own_props: "distinct (map fst (own_props v))"
  by (simp add: own_props_def distinct_literal)

lemma literal_own_props: "literal (own_props v) = own_props v"
  by (simp add: own_props_def literal_literal)

lemma own_props_object_literal: "own_props (object_literal i es) = literal es"
  by (simp add: own_props_def object_literal_def literal_literal)

lemma map_of_literal_append:
  "map_of (literal (as @ bs)) = map_of (literal as) ++ map_of (literal bs)"
  by (simp add: map_of_literal)

lemma map_of_literal_None: "(map_of (literal es) k = None) = (k \<notin> fst ` set es)"
  by (simp add: map_of_eq_None_iff keys_literal)

lemma lookup_literal_append:
  "lookup (literal (as @ bs)) k =
     (if k \<in> fst ` set bs then lookup (literal bs) k else lookup (literal as) k)"
proof (cases "map_of (literal bs) k")
  case None
  then show ?thesis
    using map_of_literal_None [of bs k]
    by (simp add: lookup_def map_of_literal_append map_add_def)
next
  case (Some v)
  then show ?thesis
    using map_of_literal_None [of bs k]
    by (simp add: lookup_def map_of_literal_append map_add_def)
qed

lemma lookup_assign: "lookup (assign k v ps) k' = (if k' = k then v else lookup ps k')"
  by (simp add: lookup_def map_of_assign)

lemma own_props_Obj_distinct: "distinct (map fst ps) \<Longrightarrow> own_props (Obj i ps) = ps"
  by (simp add: own_props_def literal_distinct_id)

section \<open>The fields of a normalized configuration\<close>

lemma processIntlConfig_props:
  "own_props (fst (processIntlConfig config n)) =
     [(''locale'', get config ''locale''),
      (''timeZone'', get config ''timeZone''),
      (''formats'', fst (canonicalFormats config ''formats'' n)),
      (''textComponent'', get config ''textComponent''),
      (''messages'', get config ''messages''),
      (''defaultLocale'', get config ''defaultLocale''),
      (''defaultFormats'',
         fst (canonicalFormats config ''defaultFormats'' (snd (canonicalFormats config ''formats'' n)))),
      (''onError'', get config ''onError'')]"
  by (simp add: processIntlConfig_def canonicalFormats_def Let_def own_props_object_literal
        literal_def split: prod.splits)

lemma keys_processIntlConfig: "keys (fst (processIntlConfig config n)) = canonical_keys"
  by (simp add: keys_def processIntlConfig_props canonical_keys_def)

lemma canonicalFormats_Undefined:
  "get config f = Undefined \<Longrightarrow> fst (canonicalFormats config f n) = Undefined"
  by (simp add: canonicalFormats_def)

text \<open>
  C4, as the code has it. The object that \<^verbatim>\<open>processIntlConfig\<close> returns has exactly the
  eight own properties \<^verbatim>\<open>locale\<close>, \<^verbatim>\<open>timeZone\<close>, \<^verbatim>\<open>formats\<close>, \<^verbatim>\<open>textComponent\<close>,
  \<^verbatim>\<open>messages\<close>, \<^verbatim>\<open>defaultLocale\<close>, \<^verbatim>\<open>defaultFormats\<close> and \<^verbatim>\<open>onError\<close>, whatever the raw
  configuration holds, and each of them is \<^verbatim>\<open>undefined\<close> when the raw configuration
  has no such property or has \<^verbatim>\<open>undefined\<close> there.
\<close>

theorem processIntlConfig_eight_fields:
  "keys (fst (processIntlConfig raw n)) = canonical_keys \<and>
   (\<forall>k \<in> set canonical_keys.
      get raw k = Undefined \<longrightarrow> get (fst (processIntlConfig raw n)) k = Undefined)"
  by (simp add: keys_processIntlConfig)
     (simp add: get_def processIntlConfig_props canonical_keys_def lookup_def
        canonicalFormats_Undefined [unfolded get_def lookup_def])

theorem processIntlConfig_eight_fields_witness:
  "''messages'' \<in> set canonical_keys \<and>
   get (Obj 10 [(''locale'', Str ''en'')]) ''messages'' = Undefined \<and>
   keys (fst (processIntlConfig (Obj 10 [(''locale'', Str ''en'')]) 100)) = canonical_keys \<and>
   get (fst (processIntlConfig (Obj 10 [(''locale'', Str ''en'')]) 100)) ''messages'' = Undefined"
proof -
  have k: "''messages'' \<in> set canonical_keys"
    by (simp add: canonical_keys_def)
  have u: "get (Obj 10 [(''locale'', Str ''en'')]) ''messages'' = Undefined"
    by (simp add: get_def own_props_def literal_def lookup_def)
  from processIntlConfig_eight_fields [of "Obj 10 [(''locale'', Str ''en'')]" 100] k u
  show ?thesis by blast
qed

text \<open>
  C4 as stated speaks of nine fields: already for the empty raw configuration the
  normalized object has eight properties, not nine.
\<close>

theorem processIntlConfig_nine_fields_counterexample:
  "length (keys (fst (processIntlConfig (Obj 0 []) 1))) \<noteq> 9"
  by (simp add: keys_processIntlConfig canonical_keys_def)

section \<open>Time zone propagation\<close>

lemma fold_presets_keys:
  "distinct ks \<Longrightarrow> set ks \<inter> fst ` set acc = {} \<Longrightarrow>
   map fst (fst (fold (\<lambda>k (all, m). (assign k (P m k) all, Suc m)) ks (acc, m))) = map fst acc @ ks"
proof (induction ks arbitrary: acc m)
  case Nil
  then show ?case by simp
next
  case (Cons k ks)
  from Cons.prems have new: "k \<notin> fst ` set acc" by auto
  from Cons.prems have "distinct ks" and "set ks \<inter> fst ` set (acc @ [(k, P m k)]) = {}"
    by auto
  from Cons.IH [OF this] show ?case
    by (simp add: assign_new [OF new])
qed

lemma fold_presets_erase:
  assumes "\<And>i k. erase (P i k) = Q k"
  shows "distinct ks \<Longrightarrow> set ks \<inter> fst ` set acc = {} \<Longrightarrow>
   map (map_prod id erase) (fst (fold (\<lambda>k (all, m). (assign k (P m k) all, Suc m)) ks (acc, m))) =
     map (map_prod id erase) acc @ map (\<lambda>k. (k, Q k)) ks"
proof (induction ks arbitrary: acc m)
  case Nil
  then show ?case by simp
next
  case (Cons k ks)
  from Cons.prems have new: "k \<notin> fst ` set acc" by auto
  from Cons.prems have "distinct ks" and "set ks \<inter> fst ` set (acc @ [(k, P m k)]) = {}"
    by auto
  from Cons.IH [OF this] show ?case
    by (simp add: assign_new [OF new] assms)
qed

lemma fold_presets_lookup:
  "k \<in> set ks \<or> (\<exists>i. map_of acc k = Some (P i k)) \<Longrightarrow>
   \<exists>i. map_of (fst (fold (\<lambda>k (all, m). (assign k (P m k) all, Suc m)) ks (acc, m))) k = Some (P i k)"
proof (induction ks arbitrary: acc m)
  case Nil
  then show ?case by simp
next
  case (Cons k0 ks)
  from Cons.prems have "k \<in> set ks \<or> (\<exists>i. map_of (assign k0 (P m k0) acc) k = Some (P i k))"
    by (auto simp: map_of_assign)
  from Cons.IH [OF this] show ?case by simp
qed

lemma fst_setTimeZoneInOptions:
  "fst (setTimeZoneInOptions opts tz n) =
     Obj n (fst (fold (\<lambda>k (all, m).
            (assign k (object_literal m ((''timeZone'', tz) # own_props (get opts k))) all, Suc m))
         (keys opts) ([], Suc n)))"
  by (simp add: setTimeZoneInOptions_def split_beta)

lemma distinct_keys: "distinct (keys v)"
  by (simp add: keys_def distinct_own_props)

lemma own_props_setTimeZoneInOptions:
  "own_props (fst (setTimeZoneInOptions opts tz n)) =
     fst (fold (\<lambda>k (all, m).
            (assign k (object_literal m ((''timeZone'', tz) # own_props (get opts k))) all, Suc m))
         (keys opts) ([], Suc n))"
proof -
  have "map fst (fst (fold (\<lambda>k (all, m).
            (assign k (object_literal m ((''timeZone'', tz) # own_props (get opts k))) all, Suc m))
         (keys opts) ([], Suc n))) = keys opts"
    using fold_presets_keys [OF distinct_keys, of opts "[]"] by simp
  then show ?thesis
    by (simp add: fst_setTimeZoneInOptions own_props_Obj_distinct distinct_keys)
qed

lemma keys_setTimeZoneInOptions: "keys (fst (setTimeZoneInOptions opts tz n)) = keys opts"
  using fold_presets_keys [OF distinct_keys, of opts "[]"]
  by (simp add: keys_def [of "fst _"] own_props_setTimeZoneInOptions)

lemma get_setTimeZoneInOptions:
  assumes "k \<in> set (keys opts)"
  shows "\<exists>i. get (fst (setTimeZoneInOptions opts tz n)) k =
           object_literal i ((''timeZone'', tz) # own_props (get opts k))"
  using fold_presets_lookup [of k "keys opts" "[]"
          "\<lambda>m k. object_literal m ((''timeZone'', tz) # own_props (get opts k))" "Suc n"] assms
  by (auto simp: get_def [of "fst _"] own_props_setTimeZoneInOptions lookup_def)

lemma get_timeZone_preset:
  "get (object_literal i ((''timeZone'', tz) # own_props v)) p =
     (if p \<in> set (keys v) then get v p else if p = ''timeZone'' then tz else Undefined)"
  using lookup_literal_append [of "[(''timeZone'', tz)]" "own_props v" p]
  by (simp add: get_def own_props_object_literal literal_own_props keys_def)
     (simp add: literal_def lookup_def)

lemma fold_assign_head:
  "\<exists>v' rest. fold (\<lambda>(k, v). assign k v) es ((k, v) # acc) = (k, v') # rest"
proof (induction es arbitrary: v acc)
  case Nil
  then show ?case by simp
next
  case (Cons x es)
  obtain k2 v2 where x: "x = (k2, v2)" by (cases x)
  show ?case
  proof (cases "k2 = k")
    case True
    then show ?thesis using Cons.IH [of v2 acc] by (simp add: x)
  next
    case False
    then show ?thesis using Cons.IH [of v "assign k2 v2 acc"] by (simp add: x)
  qed
qed

lemma literal_head_again: "literal ((k, v) # literal ((k, v) # es)) = literal ((k, v) # es)"
proof -
  obtain v' rest where y: "literal ((k, v) # es) = (k, v') # rest"
    using fold_assign_head [of es k v "[]"] by (auto simp: literal_def)
  have d: "distinct (map fst ((k, v') # rest))"
    using distinct_literal [of "(k, v) # es"] by (simp add: y)
  have "literal ((k, v) # (k, v') # rest) = fold (\<lambda>(k, v). assign k v) rest [(k, v')]"
    by (simp add: literal_def)
  also have "\<dots> = [(k, v')] @ rest"
    using d by (intro fold_assign_append) simp
  finally show ?thesis by (simp add: y)
qed

lemma erase_object_literal:
  "erase (object_literal i es) = Obj 0 (map (map_prod id erase) (literal es))"
  by (simp add: object_literal_def)

lemma erase_setTimeZoneInOptions:
  "erase (fst (setTimeZoneInOptions opts tz n)) =
     Obj 0 (map (\<lambda>k. (k, Obj 0 (map (map_prod id erase)
                                  (literal ((''timeZone'', tz) # own_props (get opts k))))))
              (keys opts))"
  using fold_presets_erase [of "\<lambda>m k. object_literal m ((''timeZone'', tz) # own_props (get opts k))"
          "\<lambda>k. Obj 0 (map (map_prod id erase) (literal ((''timeZone'', tz) # own_props (get opts k))))"
          "keys opts" "[]" "Suc n"]
  by (simp add: fst_setTimeZoneInOptions erase_object_literal distinct_keys)

lemma setTimeZoneInOptions_again:
  "erase (fst (setTimeZoneInOptions (fst (setTimeZoneInOptions opts tz n)) tz m)) =
   erase (fst (setTimeZoneInOptions opts tz n))"
proof -
  have "literal ((''timeZone'', tz) # own_props (get (fst (setTimeZoneInOptions opts tz n)) k)) =
        literal ((''timeZone'', tz) # own_props (get opts k))" if kin: "k \<in> set (keys opts)" for k
  proof -
    obtain i where "get (fst (setTimeZoneInOptions opts tz n)) k =
        object_literal i ((''timeZone'', tz) # own_props (get opts k))"
      using get_setTimeZoneInOptions [OF kin] by blast
    then show ?thesis
      by (simp add: own_props_object_literal literal_head_again)
  qed
  then show ?thesis
    by (simp add: erase_setTimeZoneInOptions keys_setTimeZoneInOptions)
qed

lemma literal_snoc: "literal (es @ [(k, v)]) = assign k v (literal es)"
  by (simp add: literal_def)

lemma setTimeZoneInFormats_unchanged:
  "\<not> truthy (get formats ''date'') \<Longrightarrow> \<not> truthy (get formats ''time'') \<Longrightarrow>
   fst (setTimeZoneInFormats formats tz n) = formats"
  by (simp add: setTimeZoneInFormats_def)

lemma setTimeZoneInFormats_changed:
  "truthy (get formats ''date'') \<or> truthy (get formats ''time'') \<Longrightarrow>
   \<exists>i m1 m2. fst (setTimeZoneInFormats formats tz n) = Obj i (tzFormatsProps formats tz m1 m2)"
  by (auto simp add: setTimeZoneInFormats_def tzFormatsProps_def Let_def split_beta
        object_literal_def literal_snoc literal_own_props own_props_Obj_distinct
        distinct_assign distinct_own_props)

lemma distinct_tzFormatsProps: "distinct (map fst (tzFormatsProps formats tz m1 m2))"
  by (simp add: tzFormatsProps_def Let_def distinct_assign distinct_own_props)

lemma lookup_tzFormatsProps:
  "lookup (tzFormatsProps formats tz m1 m2) k =
     (if k = ''time'' \<and> truthy (get formats ''time'')
      then fst (setTimeZoneInOptions (get formats ''time'') tz m2)
      else if k = ''date'' \<and> truthy (get formats ''date'')
      then fst (setTimeZoneInOptions (get formats ''date'') tz m1)
      else get formats k)"
  by (simp add: tzFormatsProps_def Let_def lookup_assign get_def)

lemma truthy_setTimeZoneInOptions: "truthy (fst (setTimeZoneInOptions opts tz n))"
  by (simp add: fst_setTimeZoneInOptions)

lemma map_erase_assign_same:
  "k \<in> fst ` set ps \<Longrightarrow> erase v = erase (lookup ps k) \<Longrightarrow>
   map (map_prod id erase) (assign k v ps) = map (map_prod id erase) ps"
  by (induction ps) (force simp: lookup_def)+

lemma keys_tzFormatsProps:
  "truthy (get formats ''date'') \<Longrightarrow> ''date'' \<in> fst ` set (tzFormatsProps formats tz m1 m2)"
  "truthy (get formats ''time'') \<Longrightarrow> ''time'' \<in> fst ` set (tzFormatsProps formats tz m1 m2)"
  by (simp_all add: tzFormatsProps_def Let_def keys_assign)

lemma setTimeZoneInFormats_again:
  "erase (fst (setTimeZoneInFormats (fst (setTimeZoneInFormats formats tz n)) tz m)) =
   erase (fst (setTimeZoneInFormats formats tz n))"
proof (cases "truthy (get formats ''date'') \<or> truthy (get formats ''time'')")
  case False
  then show ?thesis by (simp add: setTimeZoneInFormats_unchanged)
next
  case True
  then obtain i m1 m2 where f1: "fst (setTimeZoneInFormats formats tz n) = Obj i (tzFormatsProps formats tz m1 m2)"
    using setTimeZoneInFormats_changed by blast
  define ps where "ps = tzFormatsProps formats tz m1 m2"
  define formats1 where "formats1 = Obj i ps"
  have own: "own_props formats1 = ps"
    by (simp add: formats1_def ps_def own_props_Obj_distinct distinct_tzFormatsProps)
  have g: "get formats1 k = lookup ps k" for k
    by (simp add: get_def own)
  have gd: "get formats1 ''date'' =
      (if truthy (get formats ''date'') then fst (setTimeZoneInOptions (get formats ''date'') tz m1)
       else get formats ''date'')"
    by (simp add: g ps_def lookup_tzFormatsProps)
  have gt: "get formats1 ''time'' =
      (if truthy (get formats ''time'') then fst (setTimeZoneInOptions (get formats ''time'') tz m2)
       else get formats ''time'')"
    by (simp add: g ps_def lookup_tzFormatsProps)
  have td: "truthy (get formats1 ''date'') = truthy (get formats ''date'')"
    by (simp add: gd truthy_setTimeZoneInOptions)
  have tt: "truthy (get formats1 ''time'') = truthy (get formats ''time'')"
    by (simp add: gt truthy_setTimeZoneInOptions)
  from True obtain j m1' m2' where
    f2: "fst (setTimeZoneInFormats formats1 tz m) = Obj j (tzFormatsProps formats1 tz m1' m2')"
    using setTimeZoneInFormats_changed [of formats1 tz m] td tt by blast
  have ed: "map (map_prod id erase)
              (assign ''date'' (fst (setTimeZoneInOptions (get formats1 ''date'') tz m1')) ps) =
            map (map_prod id erase) ps" if d: "truthy (get formats ''date'')"
  proof (rule map_erase_assign_same)
    show "''date'' \<in> fst ` set ps"
      using d by (simp add: ps_def keys_tzFormatsProps)
    show "erase (fst (setTimeZoneInOptions (get formats1 ''date'') tz m1')) = erase (lookup ps ''date'')"
      using d by (simp add: gd setTimeZoneInOptions_again) (simp add: ps_def lookup_tzFormatsProps)
  qed
  have et: "map (map_prod id erase)
              (assign ''time'' (fst (setTimeZoneInOptions (get formats1 ''time'') tz m2')) qs) =
            map (map_prod id erase) qs"
    if t: "truthy (get formats ''time'')" and q: "''time'' \<in> fst ` set qs"
      and l: "lookup qs ''time'' = lookup ps ''time''" for qs
  proof (rule map_erase_assign_same [OF q])
    show "erase (fst (setTimeZoneInOptions (get formats1 ''time'') tz m2')) = erase (lookup qs ''time'')"
      using t by (simp add: gt setTimeZoneInOptions_again l) (simp add: ps_def lookup_tzFormatsProps)
  qed
  have "map (map_prod id erase) (tzFormatsProps formats1 tz m1' m2') = map (map_prod id erase) ps"
  proof (cases "truthy (get formats ''time'')")
    case False
    then show ?thesis
      using True by (simp add: tzFormatsProps_def [of formats1] td tt own ed)
  next
    case t: True
    have k: "''time'' \<in> fst ` set ps"
      using t by (simp add: ps_def keys_tzFormatsProps)
    show ?thesis
    proof (cases "truthy (get formats ''date'')")
      case False
      then show ?thesis
        using t by (simp add: tzFormatsProps_def [of formats1] td tt own et [OF t k])
    next
      case d: True
      have "map (map_prod id erase)
              (assign ''time'' (fst (setTimeZoneInOptions (get formats1 ''time'') tz m2'))
                 (assign ''date'' (fst (setTimeZoneInOptions (get formats1 ''date'') tz m1')) ps)) =
            map (map_prod id erase)
              (assign ''date'' (fst (setTimeZoneInOptions (get formats1 ''date'') tz m1')) ps)"
        using k by (intro et [OF t]) (simp_all add: keys_assign lookup_assign)
      then show ?thesis
        using t d by (simp add: tzFormatsProps_def [of formats1] td tt own ed)
    qed
  qed
  then show ?thesis
    by (simp add: f1 f2 [unfolded formats1_def ps_def] ps_def formats1_def)
qed

lemma get_setTimeZoneInFormats:
  assumes "d = ''date'' \<or> d = ''time''" and "truthy (get formats d)"
  shows "\<exists>m. get (fst (setTimeZoneInFormats formats tz n)) d =
               fst (setTimeZoneInOptions (get formats d) tz m)"
proof -
  from assms obtain i m1 m2 where
    "fst (setTimeZoneInFormats formats tz n) = Obj i (tzFormatsProps formats tz m1 m2)"
    using setTimeZoneInFormats_changed [of formats tz n] by blast
  then have "get (fst (setTimeZoneInFormats formats tz n)) d = lookup (tzFormatsProps formats tz m1 m2) d"
    by (simp add: get_def own_props_Obj_distinct distinct_tzFormatsProps)
  with assms show ?thesis
    by (auto simp: lookup_tzFormatsProps)
qed

lemma truthy_get: "truthy (get v k) \<Longrightarrow> truthy v"
  by (cases v) (auto simp: get_def own_props_def literal_def lookup_def)

lemma get_processIntlConfig:
  "get (fst (processIntlConfig config n)) k =
     (if k = ''formats'' then fst (canonicalFormats config ''formats'' n)
      else if k = ''defaultFormats''
      then fst (canonicalFormats config ''defaultFormats'' (snd (canonicalFormats config ''formats'' n)))
      else if k \<in> set canonical_keys then get config k else Undefined)"
  by (simp add: get_def [of "fst _"] processIntlConfig_props lookup_def canonical_keys_def)

text \<open>
  C2, as the code has it. When the raw \<^verbatim>\<open>timeZone\<close> is truthy (a non-empty string), each
  truthy preset map among \<^verbatim>\<open>formats.date\<close>, \<^verbatim>\<open>formats.time\<close>, \<^verbatim>\<open>defaultFormats.date\<close>
  and \<^verbatim>\<open>defaultFormats.time\<close> is replaced by a map with the same preset names, in which
  each preset is \<^verbatim>\<open>{timeZone, ...original}\<close>: a property that the original preset has
  itself, \<^verbatim>\<open>timeZone\<close> included, keeps the preset's value, and a preset without a
  \<^verbatim>\<open>timeZone\<close> of its own receives the top-level one.
\<close>

theorem processIntlConfig_injects_timeZone:
  assumes "truthy (get raw ''timeZone'')"
    and "f = ''formats'' \<or> f = ''defaultFormats''"
    and "d = ''date'' \<or> d = ''time''"
    and "truthy (get (get raw f) d)"
  shows "keys (get (get (fst (processIntlConfig raw n)) f) d) = keys (get (get raw f) d) \<and>
         (\<forall>k \<in> set (keys (get (get raw f) d)). \<forall>p.
            get (get (get (get (fst (processIntlConfig raw n)) f) d) k) p =
              (if p \<in> set (keys (get (get (get raw f) d) k))
               then get (get (get (get raw f) d) k) p
               else if p = ''timeZone'' then get raw ''timeZone'' else Undefined))"
proof -
  have t: "truthy (get raw f)"
    using assms(4) by (rule truthy_get)
  from assms(2) obtain n' where
    "get (fst (processIntlConfig raw n)) f = fst (canonicalFormats raw f n')"
    by (auto simp: get_processIntlConfig)
  then have "get (fst (processIntlConfig raw n)) f =
      fst (setTimeZoneInFormats (get raw f) (get raw ''timeZone'') n')"
    using assms(1) t by (simp add: canonicalFormats_def)
  then obtain m where new: "get (get (fst (processIntlConfig raw n)) f) d =
      fst (setTimeZoneInOptions (get (get raw f) d) (get raw ''timeZone'') m)"
    using get_setTimeZoneInFormats [OF assms(3,4)] by metis
  have "get (get (fst (setTimeZoneInOptions (get (get raw f) d) (get raw ''timeZone'') m)) k) p =
          (if p \<in> set (keys (get (get (get raw f) d) k))
           then get (get (get (get raw f) d) k) p
           else if p = ''timeZone'' then get raw ''timeZone'' else Undefined)"
    if kin: "k \<in> set (keys (get (get raw f) d))" for k p
  proof -
    obtain i where "get (fst (setTimeZoneInOptions (get (get raw f) d) (get raw ''timeZone'') m)) k =
        object_literal i ((''timeZone'', get raw ''timeZone'') # own_props (get (get (get raw f) d) k))"
      using get_setTimeZoneInOptions [OF kin] by blast
    then show ?thesis
      by (simp only: get_timeZone_preset)
  qed
  then show ?thesis
    by (simp add: new keys_setTimeZoneInOptions)
qed

theorem processIntlConfig_injects_timeZone_witness:
  "truthy (get cfg_presets ''timeZone'') \<and>
   truthy (get (get cfg_presets ''formats'') ''date'') \<and>
   keys (get (get (fst (processIntlConfig cfg_presets 100)) ''formats'') ''date'') = [''short'', ''long''] \<and>
   get (get (get (get (fst (processIntlConfig cfg_presets 100)) ''formats'') ''date'') ''short'') ''timeZone'' =
     Str ''America/New_York'' \<and>
   get (get (get (get (fst (processIntlConfig cfg_presets 100)) ''formats'') ''date'') ''long'') ''timeZone'' =
     Str ''UTC'' \<and>
   get (get (get (get (fst (processIntlConfig cfg_presets 100)) ''formats'') ''date'') ''long'') ''month'' =
     Str ''long''"
proof -
  have a: "truthy (get cfg_presets ''timeZone'')"
    by code_simp
  have b: "truthy (get (get cfg_presets ''formats'') ''date'')"
    by code_simp
  have k: "keys (get (get cfg_presets ''formats'') ''date'') = [''short'', ''long'']"
    by code_simp
  note t = processIntlConfig_injects_timeZone [OF a _ _ b, of 100, simplified k, simplified]
  have s: "keys (get (get (get cfg_presets ''formats'') ''date'') ''short'') = [''timeZone'', ''month'']"
    by code_simp
  have l: "keys (get (get (get cfg_presets ''formats'') ''date'') ''long'') = [''month'']"
    by code_simp
  have v1: "get (get (get (get cfg_presets ''formats'') ''date'') ''short'') ''timeZone'' = Str ''America/New_York''"
    by code_simp
  have v2: "get (get (get (get cfg_presets ''formats'') ''date'') ''long'') ''month'' = Str ''long''"
    by code_simp
  have v3: "get cfg_presets ''timeZone'' = Str ''UTC''"
    by code_simp
  show ?thesis
    using a b t by (simp add: s l v1 v2 v3)
qed

text \<open>
  C2 as stated covers every raw configuration in which \<^verbatim>\<open>timeZone\<close> is present. With the
  empty string as \<^verbatim>\<open>timeZone\<close> the test at line 75 fails: \<^verbatim>\<open>formats\<close> is passed on as it
  is and the preset receives no \<^verbatim>\<open>timeZone\<close>.
\<close>

theorem processIntlConfig_empty_timeZone_counterexample:
  "''timeZone'' \<in> set (keys cfg_empty_timeZone) \<and>
   get cfg_empty_timeZone ''timeZone'' = Str [] \<and>
   truthy (get (get cfg_empty_timeZone ''formats'') ''date'') \<and>
   ''timeZone'' \<notin> set (keys (get (get (get cfg_empty_timeZone ''formats'') ''date'') ''short'')) \<and>
   get (fst (processIntlConfig cfg_empty_timeZone 100)) ''formats'' = get cfg_empty_timeZone ''formats'' \<and>
   ''timeZone'' \<notin> set (keys (get (get (get (fst (processIntlConfig cfg_empty_timeZone 100))
                                      ''formats'') ''date'') ''short''))"
  by code_simp

section \<open>Idempotence of the normalizer\<close>

lemma truthy_setTimeZoneInFormats:
  "truthy formats \<Longrightarrow> truthy (fst (setTimeZoneInFormats formats tz n))"
proof (cases "truthy (get formats ''date'') \<or> truthy (get formats ''time'')")
  case False
  assume "truthy formats"
  with False show ?thesis by (simp add: setTimeZoneInFormats_unchanged)
next
  case True
  then obtain i m1 m2 where "fst (setTimeZoneInFormats formats tz n) = Obj i (tzFormatsProps formats tz m1 m2)"
    using setTimeZoneInFormats_changed by blast
  then show ?thesis by simp
qed

lemma canonicalFormats_again:
  assumes "get config2 ''timeZone'' = get config ''timeZone''"
    and "get config2 f = fst (canonicalFormats config f n)"
  shows "erase (fst (canonicalFormats config2 f m)) = erase (fst (canonicalFormats config f n))"
proof (cases "truthy (get config ''timeZone'') \<and> truthy (get config f)")
  case False
  then show ?thesis
    using assms by (auto simp: canonicalFormats_def)
next
  case True
  then have "get config2 f = fst (setTimeZoneInFormats (get config f) (get config ''timeZone'') n)"
    using assms(2) by (simp add: canonicalFormats_def)
  then show ?thesis
    using True assms(1)
    by (simp add: canonicalFormats_def truthy_setTimeZoneInFormats setTimeZoneInFormats_again)
qed

text \<open>
  C3. Normalizing a normalized configuration changes no field, up to the identities of
  the objects that normalization creates: under every key, the twice normalized and the
  once normalized configuration hold deeply equal values.
\<close>

theorem processIntlConfig_idempotent:
  "erase (get (fst (processIntlConfig (fst (processIntlConfig raw n)) m)) k) =
   erase (get (fst (processIntlConfig raw n)) k)"
proof -
  have tz: "get (fst (processIntlConfig raw n)) ''timeZone'' = get raw ''timeZone''"
    by (simp add: get_processIntlConfig canonical_keys_def)
  have f: "get (fst (processIntlConfig raw n)) ''formats'' = fst (canonicalFormats raw ''formats'' n)"
    by (simp add: get_processIntlConfig)
  have d: "get (fst (processIntlConfig raw n)) ''defaultFormats'' =
      fst (canonicalFormats raw ''defaultFormats'' (snd (canonicalFormats raw ''formats'' n)))"
    by (simp add: get_processIntlConfig)
  show ?thesis
    by (simp add: get_processIntlConfig [of "fst (processIntlConfig raw n)"]
          canonicalFormats_again [OF tz f] canonicalFormats_again [OF tz d])
       (simp add: get_processIntlConfig)
qed

section \<open>The context builder\<close>

lemma distinct_resolveConfig: "distinct (map fst (resolveConfig e config))"
  by (simp add: resolveConfig_def distinct_literal)

lemma lookup_resolveConfig:
  "lookup (resolveConfig e config) k =
     (if k \<in> set (keys config) then get config k else get (DEFAULT_INTL_CONFIG e) k)"
  by (simp add: resolveConfig_def lookup_literal_append literal_own_props keys_def get_def)

lemma get_intl:
  assumes "k \<notin> set bundle_keys" and "distinct (map fst rc)"
  shows "get (object_literal n (intlShape (Obj rid rc) formatters m)) k = lookup rc k"
proof -
  have "lookup (literal (intlShape (Obj rid rc) formatters m)) k = lookup (literal (own_props (Obj rid rc))) k"
    unfolding intlShape_def using assms(1)
    by (subst lookup_literal_append) (simp add: bundle_keys_def)
  then show ?thesis
    by (simp add: get_def own_props_object_literal literal_own_props own_props_Obj_distinct
          literal_distinct_id assms(2))
qed

lemma createIntl_shape:
  "\<exists>n rid formatters m.
     fst (createIntl e config c w) =
       object_literal n (intlShape (Obj rid (resolvedFinal e config)) formatters m)"
  by (simp add: createIntl_def Let_def resolvedFinal_def split: prod.splits)
     blast

lemma distinct_resolvedFinal: "distinct (map fst (resolvedFinal e config))"
  by (simp add: resolvedFinal_def distinct_resolveConfig distinct_assign)

lemma createIntl_get:
  assumes "k \<notin> set bundle_keys"
  shows "get (fst (createIntl e config c w)) k = lookup (resolvedFinal e config) k"
proof -
  obtain n rid formatters m where
    "fst (createIntl e config c w) =
       object_literal n (intlShape (Obj rid (resolvedFinal e config)) formatters m)"
    using createIntl_shape by blast
  then show ?thesis
    by (simp add: get_intl [OF assms distinct_resolvedFinal])
qed

lemma createIntl_calls:
  "calls (snd (createIntl e config c w)) =
     calls w @
     (if localeMissing e (resolveConfig e config) \<and> is_function (lookup (resolveConfig e config) ''onError'')
      then [(lookup (resolveConfig e config) ''onError'',
             [fst (createError e
                     (missingLocaleMessage e (lookup (resolveConfig e config) ''locale'')
                        (lookup (resolveConfig e config) ''defaultLocale''))
                     (Suc (snd (createFormatters e c (next_id w)))))])]
      else [])"
  by (simp add: createIntl_def Let_def split: prod.splits)

lemma locale_not_bundle: "''locale'' \<notin> set bundle_keys" "''messages'' \<notin> set bundle_keys"
   "''defaultLocale'' \<notin> set bundle_keys"
  by (simp_all add: bundle_keys_def)

text \<open>
  C6, as the code has it. \<^verbatim>\<open>createIntl\<close> merges the configuration over the defaults key
  by key: a key that the configuration has as an own property takes the configuration's
  value, also when that value is \<^verbatim>\<open>undefined\<close>; any other key takes the default. The
  returned context carries these values under every key that is not one of the added
  formatter properties, \<^verbatim>\<open>locale\<close> aside when the locale is replaced.
\<close>

theorem createIntl_merges_over_defaults:
  "lookup (resolveConfig e config) k =
     (if k \<in> set (keys config) then get config k else get (DEFAULT_INTL_CONFIG e) k) \<and>
   (k \<notin> set bundle_keys \<and> (k = ''locale'' \<longrightarrow> \<not> localeMissing e (resolveConfig e config)) \<longrightarrow>
      get (fst (createIntl e config c w)) k =
        (if k \<in> set (keys config) then get config k else get (DEFAULT_INTL_CONFIG e) k))"
  by (auto simp add: createIntl_get resolvedFinal_def lookup_assign lookup_resolveConfig)

theorem createIntl_merges_over_defaults_witness:
  "''messages'' \<notin> set bundle_keys \<and> ''messages'' \<noteq> ''locale'' \<and>
   ''messages'' \<notin> set (keys cfg_no_callback) \<and>
   get (fst (createIntl sample_env cfg_no_callback Undefined sample_world)) ''messages'' = Obj 2 [] \<and>
   lookup (resolveConfig sample_env cfg_no_callback) ''defaultLocale'' = Str ''de''"
proof -
  have a: "''messages'' \<notin> set bundle_keys \<and> ''messages'' \<noteq> ''locale''"
    by code_simp
  have b: "''messages'' \<notin> set (keys cfg_no_callback)"
    by code_simp
  have c: "get (DEFAULT_INTL_CONFIG sample_env) ''messages'' = Obj 2 []"
    by code_simp
  have d: "''defaultLocale'' \<in> set (keys cfg_no_callback)"
    by code_simp
  have e: "get cfg_no_callback ''defaultLocale'' = Str ''de''"
    by code_simp
  from createIntl_merges_over_defaults [of sample_env cfg_no_callback "''messages''" Undefined sample_world]
    createIntl_merges_over_defaults [of sample_env cfg_no_callback "''defaultLocale''" Undefined sample_world]
    a b d
  show ?thesis
    unfolding c [symmetric] e [symmetric] by simp
qed

text \<open>
  C6 as stated lets a field that is \<^verbatim>\<open>undefined\<close> in the canonical configuration resolve
  to its default. The canonical configuration of \<^verbatim>\<open>{locale: "de"}\<close> has
  \<^verbatim>\<open>defaultLocale: undefined\<close>; with the default \<^verbatim>\<open>"en"\<close> the resolved
  \<^verbatim>\<open>defaultLocale\<close> is \<^verbatim>\<open>undefined\<close>, not \<^verbatim>\<open>"en"\<close>.
\<close>

theorem createIntl_undefined_overrides_default_counterexample:
  "get (DEFAULT_INTL_CONFIG sample_env) ''defaultLocale'' = Str ''en'' \<and>
   get (fst (processIntlConfig (Obj 10 [(''locale'', Str ''de'')]) 100)) ''defaultLocale'' = Undefined \<and>
   lookup (resolveConfig sample_env (fst (processIntlConfig (Obj 10 [(''locale'', Str ''de'')]) 100)))
     ''defaultLocale'' = Undefined \<and>
   get (fst (createIntl sample_env (fst (processIntlConfig (Obj 10 [(''locale'', Str ''de'')]) 100))
               Undefined sample_world)) ''defaultLocale'' = Undefined"
  by code_simp

text \<open>
  C5, as the code has it. When the resolved locale is falsy or has no locale data and
  the resolved \<^verbatim>\<open>onError\<close> is a function, \<^verbatim>\<open>createIntl\<close> returns a context, has called
  \<^verbatim>\<open>onError\<close> exactly once, with the error made from the missing-locale message, and the
  context's locale is \<^verbatim>\<open>defaultLocale || "en"\<close>: the resolved \<^verbatim>\<open>defaultLocale\<close> when that
  is truthy, \<^verbatim>\<open>"en"\<close> otherwise.
\<close>

theorem createIntl_reports_missing_locale:
  assumes "localeMissing e (resolveConfig e config)"
    and "is_function (lookup (resolveConfig e config) ''onError'')"
  shows "\<exists>ctx w' n.
           createIntl e config c w = (ctx, w') \<and>
           calls w' = calls w @
             [(lookup (resolveConfig e config) ''onError'',
               [fst (createError e
                       (missingLocaleMessage e (lookup (resolveConfig e config) ''locale'')
                          (lookup (resolveConfig e config) ''defaultLocale''))
                       n)])] \<and>
           get ctx ''locale'' = js_or (lookup (resolveConfig e config) ''defaultLocale'') (Str ''en'')"
proof -
  define n where "n = Suc (snd (createFormatters e c (next_id w)))"
  have "calls (snd (createIntl e config c w)) = calls w @
       [(lookup (resolveConfig e config) ''onError'',
         [fst (createError e
                 (missingLocaleMessage e (lookup (resolveConfig e config) ''locale'')
                    (lookup (resolveConfig e config) ''defaultLocale''))
                 n)])]"
    using createIntl_calls [of e config c w] assms by (simp add: n_def)
  moreover have "get (fst (createIntl e config c w)) ''locale'' =
      js_or (lookup (resolveConfig e config) ''defaultLocale'') (Str ''en'')"
    using assms(1) by (simp add: createIntl_get locale_not_bundle resolvedFinal_def lookup_assign)
  ultimately show ?thesis
    by (intro exI [of _ "fst (createIntl e config c w)"] exI [of _ "snd (createIntl e config c w)"]
          exI [of _ n]) simp
qed

theorem createIntl_reports_missing_locale_witness:
  "localeMissing sample_env (resolveConfig sample_env cfg_unsupported) \<and>
   is_function (lookup (resolveConfig sample_env cfg_unsupported) ''onError'') \<and>
   (\<exists>ctx w' err.
      createIntl sample_env cfg_unsupported Undefined sample_world = (ctx, w') \<and>
      calls w' = [(Fun 7, [err])] \<and> get ctx ''locale'' = Str ''de'')"
proof -
  have a: "localeMissing sample_env (resolveConfig sample_env cfg_unsupported)"
    by code_simp
  have b: "is_function (lookup (resolveConfig sample_env cfg_unsupported) ''onError'')"
    by code_simp
  have c: "lookup (resolveConfig sample_env cfg_unsupported) ''onError'' = Fun 7"
    by code_simp
  have d: "js_or (lookup (resolveConfig sample_env cfg_unsupported) ''defaultLocale'') (Str ''en'') = Str ''de''"
    by code_simp
  have e: "calls sample_world = []"
    by (simp add: sample_world_def)
  from createIntl_reports_missing_locale [OF a b, of Undefined sample_world] a b
  show ?thesis
    unfolding c d e by auto
qed

text \<open>
  C5 as stated sets the locale to \<^verbatim>\<open>defaultLocale\<close> unless that is absent. With the
  \<^verbatim>\<open>defaultLocale\<close> present as the empty string, the context's locale is \<^verbatim>\<open>"en"\<close>.
\<close>

theorem createIntl_empty_defaultLocale_counterexample:
  "\<not> areIntlLocalesSupported sample_env (get cfg_empty_default ''locale'') \<and>
   is_function (get cfg_empty_default ''onError'') \<and>
   ''defaultLocale'' \<in> set (keys cfg_empty_default) \<and>
   get cfg_empty_default ''defaultLocale'' = Str [] \<and>
   get (fst (createIntl sample_env cfg_empty_default Undefined sample_world)) ''locale'' = Str ''en''"
  by code_simp

text \<open>
  C9. When the resolved locale is falsy or has no locale data and the resolved
  \<^verbatim>\<open>onError\<close> is not a function, \<^verbatim>\<open>createIntl\<close> returns a context without calling any
  callback, and the context's locale is the fallback locale \<^verbatim>\<open>defaultLocale || "en"\<close>.
\<close>

theorem createIntl_fallback_without_callback:
  assumes "localeMissing e (resolveConfig e config)"
    and "\<not> is_function (lookup (resolveConfig e config) ''onError'')"
  shows "\<exists>ctx w'.
           createIntl e config c w = (ctx, w') \<and>
           calls w' = calls w \<and>
           get ctx ''locale'' = js_or (lookup (resolveConfig e config) ''defaultLocale'') (Str ''en'')"
proof -
  have "calls (snd (createIntl e config c w)) = calls w"
    using createIntl_calls [of e config c w] assms by auto
  moreover have "get (fst (createIntl e config c w)) ''locale'' =
      js_or (lookup (resolveConfig e config) ''defaultLocale'') (Str ''en'')"
    using assms(1) by (simp add: createIntl_get locale_not_bundle resolvedFinal_def lookup_assign)
  ultimately show ?thesis
    by (intro exI [of _ "fst (createIntl e config c w)"] exI [of _ "snd (createIntl e config c w)"])
       simp
qed

theorem createIntl_fallback_without_callback_witness:
  "localeMissing sample_env (resolveConfig sample_env cfg_no_callback) \<and>
   \<not> is_function (lookup (resolveConfig sample_env cfg_no_callback) ''onError'') \<and>
   (\<exists>ctx w'.
      createIntl sample_env cfg_no_callback Undefined sample_world = (ctx, w') \<and>
      calls w' = [] \<and> get ctx ''locale'' = Str ''de'')"
proof -
  have a: "localeMissing sample_env (resolveConfig sample_env cfg_no_callback)"
    by code_simp
  have b: "\<not> is_function (lookup (resolveConfig sample_env cfg_no_callback) ''onError'')"
    by code_simp
  have d: "js_or (lookup (resolveConfig sample_env cfg_no_callback) ''defaultLocale'') (Str ''en'') = Str ''de''"
    by code_simp
  have e: "calls sample_world = []"
    by (simp add: sample_world_def)
  from createIntl_fallback_without_callback [OF a b, of Undefined sample_world] a b
  show ?thesis
    unfolding d e by auto
qed

text \<open>
  C7. On locale fallback the returned context has, under every key other than
  \<^verbatim>\<open>locale\<close> (and other than the added formatter properties), the value of the resolved
  configuration; in particular the \<^verbatim>\<open>messages\<close> of the configuration are kept.
\<close>

theorem createIntl_fallback_keeps_fields:
  assumes "localeMissing e (resolveConfig e config)"
  shows "(\<forall>k. k \<noteq> ''locale'' \<and> k \<notin> set bundle_keys \<longrightarrow>
            get (fst (createIntl e config c w)) k = lookup (resolveConfig e config) k) \<and>
         (''messages'' \<in> set (keys config) \<longrightarrow>
            get (fst (createIntl e config c w)) ''messages'' = get config ''messages'')"
  using assms
  by (simp add: createIntl_get locale_not_bundle resolvedFinal_def lookup_assign lookup_resolveConfig)

theorem createIntl_fallback_keeps_fields_witness:
  "localeMissing sample_env (resolveConfig sample_env cfg_unsupported) \<and>
   ''messages'' \<in> set (keys cfg_unsupported) \<and>
   get (fst (createIntl sample_env cfg_unsupported Undefined sample_world)) ''messages'' =
     Obj 8 [(''greeting'', Str ''Hello'')] \<and>
   get (fst (createIntl sample_env cfg_unsupported Undefined sample_world)) ''textComponent'' = Fun 3"
proof -
  have a: "localeMissing sample_env (resolveConfig sample_env cfg_unsupported)"
    by code_simp
  have b: "''messages'' \<in> set (keys cfg_unsupported)"
    by code_simp
  have c: "get cfg_unsupported ''messages'' = Obj 8 [(''greeting'', Str ''Hello'')]"
    by code_simp
  have d: "lookup (resolveConfig sample_env cfg_unsupported) ''textComponent'' = Fun 3"
    by code_simp
  have e: "''textComponent'' \<noteq> ''locale'' \<and> ''textComponent'' \<notin> set bundle_keys"
    by code_simp
  note t = createIntl_fallback_keeps_fields [OF a, of Undefined sample_world]
  from t b have m: "get (fst (createIntl sample_env cfg_unsupported Undefined sample_world)) ''messages'' =
      get cfg_unsupported ''messages''"
    by (rule conjunct2 [THEN mp])
  from t have "''textComponent'' \<noteq> ''locale'' \<and> ''textComponent'' \<notin> set bundle_keys \<longrightarrow>
      get (fst (createIntl sample_env cfg_unsupported Undefined sample_world)) ''textComponent'' =
      lookup (resolveConfig sample_env cfg_unsupported) ''textComponent''"
    by (rule conjunct1 [THEN spec])
  from this e have tc: "get (fst (createIntl sample_env cfg_unsupported Undefined sample_world)) ''textComponent'' =
      lookup (resolveConfig sample_env cfg_unsupported) ''textComponent''"
    by (rule mp)
  show ?thesis
    using a b m tc by (simp only: c d simp_thms)
qed

section \<open>The lifecycle guard\<close>

lemma cache_mergeState: "cache (mergeState s r) = cache s"
  by (cases r) (auto simp: mergeState_def)

lemma cache_receiveProps: "cache (fst (receiveProps e props sw)) = cache (fst sw)"
  by (simp add: receiveProps_def split_beta cache_mergeState)

lemma cache_session: "cache (fst (session e events sw)) = cache (fst sw)"
  unfolding session_def
  by (induction events arbitrary: sw) (simp_all add: cache_receiveProps)

lemma cache_IntlProvider: "cache (fst (IntlProvider e props w)) = fst (createIntlCache e (next_id w))"
  by (simp add: IntlProvider_def split_beta)

lemma intl_IntlProvider:
  "\<exists>w1. intl (fst (IntlProvider e props w)) =
     fst (createIntl e (fst (processIntlConfig props (snd (createIntlCache e (next_id w)))))
            (fst (createIntlCache e (next_id w))) w1)"
  by (simp add: IntlProvider_def split_beta) blast

lemma getDerivedStateFromProps_Some:
  "fst (getDerivedStateFromProps e props s w) = Some (i, config) \<Longrightarrow>
   config = fst (processIntlConfig props (next_id w)) \<and>
   \<not> shallowEquals (prevConfig s) config \<and>
   (\<exists>w1. i = fst (createIntl e config (cache s) w1))"
  by (auto simp: getDerivedStateFromProps_def split_beta Let_def split: if_splits)

text \<open>
  C8. The cache is created once, when the provider is mounted, and the state keeps it
  through every sequence of configuration events; the context built at mounting and
  every context that the guard builds after any such sequence are built by
  \<^verbatim>\<open>createIntl\<close> with that cache.
\<close>

theorem session_keeps_mount_cache:
  "cache (fst (session e events (IntlProvider e props0 w0))) = fst (createIntlCache e (next_id w0)) \<and>
   (\<exists>w1. intl (fst (IntlProvider e props0 w0)) =
      fst (createIntl e (fst (processIntlConfig props0 (snd (createIntlCache e (next_id w0)))))
             (fst (createIntlCache e (next_id w0))) w1)) \<and>
   (\<forall>props i config.
      fst (getDerivedStateFromProps e props
             (fst (session e events (IntlProvider e props0 w0)))
             (snd (session e events (IntlProvider e props0 w0)))) = Some (i, config) \<longrightarrow>
      (\<exists>w1. i = fst (createIntl e config (fst (createIntlCache e (next_id w0))) w1)))"
proof -
  have c: "cache (fst (session e events (IntlProvider e props0 w0))) = fst (createIntlCache e (next_id w0))"
    by (simp add: cache_session cache_IntlProvider)
  show ?thesis
    using getDerivedStateFromProps_Some [of e _ "fst (session e events (IntlProvider e props0 w0))"]
    by (simp add: c intl_IntlProvider)
qed

theorem session_keeps_mount_cache_witness:
  "fst (createIntlCache sample_env (next_id sample_world)) = Obj 100 [] \<and>
   cache (fst (session sample_env [cfg_presets, cfg_unsupported]
                  (IntlProvider sample_env cfg_presets sample_world))) = Obj 100 [] \<and>
   (\<exists>i config w1.
      fst (getDerivedStateFromProps sample_env cfg_unsupported
             (fst (session sample_env [cfg_presets] (IntlProvider sample_env cfg_presets sample_world)))
             (snd (session sample_env [cfg_presets] (IntlProvider sample_env cfg_presets sample_world))))
        = Some (i, config) \<and>
      i = fst (createIntl sample_env config (Obj 100 []) w1))"
proof -
  have a: "fst (createIntlCache sample_env (next_id sample_world)) = Obj 100 []"
    by code_simp
  have "fst (getDerivedStateFromProps sample_env cfg_unsupported
             (fst (session sample_env [cfg_presets] (IntlProvider sample_env cfg_presets sample_world)))
             (snd (session sample_env [cfg_presets] (IntlProvider sample_env cfg_presets sample_world))))
        \<noteq> None"
    by code_simp
  then obtain i config where b:
    "fst (getDerivedStateFromProps sample_env cfg_unsupported
             (fst (session sample_env [cfg_presets] (IntlProvider sample_env cfg_presets sample_world)))
             (snd (session sample_env [cfg_presets] (IntlProvider sample_env cfg_presets sample_world))))
        = Some (i, config)"
    by auto
  from session_keeps_mount_cache [of sample_env "[cfg_presets]" cfg_presets sample_world] b
  obtain w1 where c: "i = fst (createIntl sample_env config (Obj 100 []) w1)"
    unfolding a by blast
  from session_keeps_mount_cache [of sample_env "[cfg_presets, cfg_unsupported]" cfg_presets sample_world]
  have d: "cache (fst (session sample_env [cfg_presets, cfg_unsupported]
                  (IntlProvider sample_env cfg_presets sample_world))) = Obj 100 []"
    unfolding a by (rule conjunct1)
  show ?thesis
    using a b c d by blast
qed

text \<open>
  What the guard does keep: props that differ outside the eight canonical fields are
  normalized alike and the guard cannot tell them apart; when the normalized
  configuration is shallowly equal to the previous one the state is left as it is; and
  this is the case right after mounting whenever \<^verbatim>\<open>timeZone\<close> is falsy.
\<close>

lemma processIntlConfig_ignores_other_fields:
  assumes "\<forall>k \<in> set canonical_keys. get raw1 k = get raw2 k"
  shows "processIntlConfig raw1 n = processIntlConfig raw2 n"
  using assms by (simp add: processIntlConfig_def canonical_keys_def)

lemma getDerivedStateFromProps_ignores_other_fields:
  assumes "\<forall>k \<in> set canonical_keys. get raw1 k = get raw2 k"
  shows "getDerivedStateFromProps e raw1 s w = getDerivedStateFromProps e raw2 s w"
  by (simp add: getDerivedStateFromProps_def processIntlConfig_ignores_other_fields [OF assms])

lemma getDerivedStateFromProps_reuses:
  assumes "shallowEquals (prevConfig s) (fst (processIntlConfig props (next_id w)))"
  shows "fst (getDerivedStateFromProps e props s w) = None \<and>
         fst (receiveProps e props (s, w)) = s"
  using assms
  by (simp add: receiveProps_def getDerivedStateFromProps_def split_beta mergeState_def)

lemma strict_eq_refl: "strict_eq v v"
  by (cases v) simp_all

lemma shallowEquals_same_props:
  "shallowEquals (object_literal i es) (object_literal j es)"
  by (simp add: shallowEquals_def object_literal_def keys_def get_def own_props_def
        literal_literal strict_eq_refl list_all_iff)

lemma IntlProvider_then_same_props:
  assumes "\<not> truthy (get props ''timeZone'')"
  shows "fst (getDerivedStateFromProps e props (fst (IntlProvider e props w)) (snd (IntlProvider e props w)))
           = None"
proof -
  have "\<exists>es. \<forall>n. fst (processIntlConfig props n) = object_literal n es"
    using assms by (simp add: processIntlConfig_def) blast
  then obtain es where p: "\<And>n. fst (processIntlConfig props n) = object_literal n es"
    by blast
  have "\<exists>i. prevConfig (fst (IntlProvider e props w)) = object_literal i es"
    by (simp add: IntlProvider_def split_beta p) blast
  then show ?thesis
    using shallowEquals_same_props [of _ es]
    by (auto simp: getDerivedStateFromProps_def split_beta p)
qed


text \<open>
  C1 at a failing input. With a truthy \<^verbatim>\<open>timeZone\<close> and a \<^verbatim>\<open>formats.date\<close> map,
  \<^verbatim>\<open>processIntlConfig\<close> returns a new \<^verbatim>\<open>formats\<close> object at every call, so the
  shallow comparison fails although the very same props are presented again: the guard
  builds a new context, whose identity differs from the previous one.
\<close>

theorem guard_rebuilds_on_identical_props:
  "fst (getDerivedStateFromProps sample_env cfg_presets
          (fst (receiveProps sample_env cfg_presets (IntlProvider sample_env cfg_presets sample_world)))
          (snd (receiveProps sample_env cfg_presets (IntlProvider sample_env cfg_presets sample_world))))
     \<noteq> None \<and>
   \<not> strict_eq
       (intl (fst (receiveProps sample_env cfg_presets
                     (receiveProps sample_env cfg_presets (IntlProvider sample_env cfg_presets sample_world)))))
       (intl (fst (receiveProps sample_env cfg_presets (IntlProvider sample_env cfg_presets sample_world))))"
  by code_simp

text \<open>
  Insensitivity to the other properties. Two raw configurations that agree on the eight
  canonical fields are normalized to the same result, whatever else they hold, and the
  guard returns the same result for either of them. It keeps the state, and so the
  previous context, when the normalized configuration is shallowly equal to the previous
  one; this is the case for the second configuration right after mounting with the first
  when \<^verbatim>\<open>timeZone\<close> is falsy.
\<close>

lemma guard_ignores_other_fields:
  assumes "\<forall>k \<in> set canonical_keys. get raw1 k = get raw2 k"
  shows "processIntlConfig raw1 n = processIntlConfig raw2 n \<and>
         getDerivedStateFromProps e raw1 s w = getDerivedStateFromProps e raw2 s w \<and>
         (shallowEquals (prevConfig s) (fst (processIntlConfig raw1 (next_id w))) \<longrightarrow>
            fst (getDerivedStateFromProps e raw2 s w) = None \<and>
            fst (receiveProps e raw2 (s, w)) = s) \<and>
         (\<not> truthy (get raw1 ''timeZone'') \<longrightarrow>
            fst (getDerivedStateFromProps e raw2
                   (fst (IntlProvider e raw1 w)) (snd (IntlProvider e raw1 w))) = None)"
proof -
  have p: "processIntlConfig raw1 n = processIntlConfig raw2 n" for n
    using assms by (rule processIntlConfig_ignores_other_fields)
  have g: "getDerivedStateFromProps e raw1 s w = getDerivedStateFromProps e raw2 s w" for s w
    using assms by (rule getDerivedStateFromProps_ignores_other_fields)
  have r: "shallowEquals (prevConfig s) (fst (processIntlConfig raw1 (next_id w))) \<longrightarrow>
            fst (getDerivedStateFromProps e raw2 s w) = None \<and>
            fst (receiveProps e raw2 (s, w)) = s"
    using getDerivedStateFromProps_reuses [of s raw2 w e] by (simp add: p)
  have m: "\<not> truthy (get raw1 ''timeZone'') \<longrightarrow>
            fst (getDerivedStateFromProps e raw2
                   (fst (IntlProvider e raw1 w)) (snd (IntlProvider e raw1 w))) = None"
    using IntlProvider_then_same_props [of raw1 e w] by (simp add: g)
  show ?thesis
    using p g r m by blast
qed

lemma guard_ignores_other_fields_example:
  "list_all (\<lambda>k. get cfg_plain_a k = get cfg_plain_b k) canonical_keys \<and>
   get cfg_plain_a ''children'' \<noteq> get cfg_plain_b ''children'' \<and>
   \<not> truthy (get cfg_plain_a ''timeZone'') \<and>
   processIntlConfig cfg_plain_a 100 = processIntlConfig cfg_plain_b 100 \<and>
   fst (getDerivedStateFromProps sample_env cfg_plain_b
          (fst (IntlProvider sample_env cfg_plain_a sample_world))
          (snd (IntlProvider sample_env cfg_plain_a sample_world))) = None"
proof -
  have a: "\<forall>k \<in> set canonical_keys. get cfg_plain_a k = get cfg_plain_b k"
    by code_simp
  have b: "get cfg_plain_a ''children'' \<noteq> get cfg_plain_b ''children''"
    by code_simp
  have c: "\<not> truthy (get cfg_plain_a ''timeZone'')"
    by code_simp
  from guard_ignores_other_fields [OF a, where n = 100 and e = sample_env and w = sample_world] a b c
  show ?thesis
    unfolding list_all_iff by blast
qed

text \<open>
  C10 at a failing input. The claim has the guard treat two raw configurations that
  agree on the eight canonical fields as unchanged and reuse the previous context. The
  two sample configurations agree on the eight canonical fields (the same
  \<^verbatim>\<open>formats\<close> object included) and differ in \<^verbatim>\<open>children\<close>; presented one after the
  other, the second makes the guard build a new context. The difference in
  \<^verbatim>\<open>children\<close> plays no part: it is the defect shown for C1, the new \<^verbatim>\<open>formats\<close>
  object that \<^verbatim>\<open>processIntlConfig\<close> returns at every call when \<^verbatim>\<open>timeZone\<close> is truthy
  and a date or time preset map exists.
\<close>

theorem guard_rebuilds_on_agreeing_props:
  "list_all (\<lambda>k. get cfg_children_a k = get cfg_children_b k) canonical_keys \<and>
   get cfg_children_a ''children'' \<noteq> get cfg_children_b ''children'' \<and>
   fst (getDerivedStateFromProps sample_env cfg_children_b
          (fst (receiveProps sample_env cfg_children_a (IntlProvider sample_env cfg_children_a sample_world)))
          (snd (receiveProps sample_env cfg_children_a (IntlProvider sample_env cfg_children_a sample_world))))
     \<noteq> None \<and>
   \<not> strict_eq
       (intl (fst (receiveProps sample_env cfg_children_b
                     (receiveProps sample_env cfg_children_a (IntlProvider sample_env cfg_children_a sample_world)))))
       (intl (fst (receiveProps sample_env cfg_children_a (IntlProvider sample_env cfg_children_a sample_world))))"
  by code_simp

end
